theory Spec2Isabelle
  imports Complex_Main
begin

section \<open>The numeric layer\<close>

text \<open>
  The program computes with numpy arrays of 64-bit floats. A finite double is modelled
  by the real number it stands for; the other values of the format are the two
  infinities and NaN. The double \<open>-0.0\<close> is not told apart from \<open>0.0\<close>: a zero
  divisor counts as \<open>+0.0\<close>.
\<close>

datatype float64 = Fin real | PInf | NInf | NaN

text \<open>A one-dimensional array, as \<^verbatim>\<open>npt.NDArray[np.float64]\<close>.\<close>

type_synonym ARRAY = "float64 list"

text \<open>The only exception the numeric layer raises: operands that cannot be broadcast.\<close>

datatype error = ValueError

type_synonym result = "error + ARRAY"

text \<open>
  How the machine rounds is a parameter of the model, not a part of it. \<open>rnd\<close> takes
  the exact positive value of a result to the double that stands for it, or to \<open>None\<close>
  when the value overflows. IEEE 754 rounds \<open>+\<close>, \<open>-\<close>, \<open>*\<close>, \<open>/\<close> and the square root
  correctly, and rounding to nearest is symmetric in the sign: these five operations are
  the exact operation followed by \<open>rnd\<close> on the magnitude. An exact zero is a double.
  \<open>exp64\<close> and \<open>log64\<close> are the library's exponential and logarithm (the latter on
  positive arguments), whose rounding no standard fixes.
\<close>

record arith =
  rnd :: "real \<Rightarrow> real option"
  exp64 :: "real \<Rightarrow> float64"
  log64 :: "real \<Rightarrow> float64"

definition rounded :: "arith \<Rightarrow> real \<Rightarrow> float64" where
  "rounded fp z =
     (if z = 0 then Fin 0
      else if 0 < z then (case rnd fp z of None \<Rightarrow> PInf | Some a \<Rightarrow> Fin a)
      else (case rnd fp (- z) of None \<Rightarrow> NInf | Some a \<Rightarrow> Fin (- a)))"

text \<open>The infinity of a given sign; no sign gives NaN, as in \<open>0 * inf\<close> and \<open>0 / 0\<close>.\<close>

definition signed_inf :: "real \<Rightarrow> float64" where
  "signed_inf s = (if s = 0 then NaN else if 0 < s then PInf else NInf)"

fun sign_of :: "float64 \<Rightarrow> real" where
  "sign_of (Fin x) = sgn x"
| "sign_of PInf = 1"
| "sign_of NInf = - 1"
| "sign_of NaN = 0"

fun fneg :: "float64 \<Rightarrow> float64" where
  "fneg (Fin x) = Fin (- x)"
| "fneg PInf = NInf"
| "fneg NInf = PInf"
| "fneg NaN = NaN"

fun fadd :: "arith \<Rightarrow> float64 \<Rightarrow> float64 \<Rightarrow> float64" where
  "fadd fp (Fin x) (Fin y) = rounded fp (x + y)"
| "fadd fp NaN b = NaN"
| "fadd fp a NaN = NaN"
| "fadd fp PInf NInf = NaN"
| "fadd fp NInf PInf = NaN"
| "fadd fp PInf b = PInf"
| "fadd fp NInf b = NInf"
| "fadd fp a PInf = PInf"
| "fadd fp a NInf = NInf"

definition fsub :: "arith \<Rightarrow> float64 \<Rightarrow> float64 \<Rightarrow> float64" where
  "fsub fp a b = fadd fp a (fneg b)"

fun fmul :: "arith \<Rightarrow> float64 \<Rightarrow> float64 \<Rightarrow> float64" where
  "fmul fp (Fin x) (Fin y) = rounded fp (x * y)"
| "fmul fp NaN b = NaN"
| "fmul fp a NaN = NaN"
| "fmul fp a b = signed_inf (sign_of a * sign_of b)"

fun fdiv :: "arith \<Rightarrow> float64 \<Rightarrow> float64 \<Rightarrow> float64" where
  "fdiv fp (Fin x) (Fin y) = (if y = 0 then signed_inf (sgn x) else rounded fp (x / y))"
| "fdiv fp NaN b = NaN"
| "fdiv fp a NaN = NaN"
| "fdiv fp (Fin x) b = Fin 0"
| "fdiv fp a (Fin y) = signed_inf (sign_of a * (if y < 0 then - 1 else 1))"
| "fdiv fp a b = NaN"

fun fexp :: "arith \<Rightarrow> float64 \<Rightarrow> float64" where
  "fexp fp (Fin x) = exp64 fp x"
| "fexp fp PInf = PInf"
| "fexp fp NInf = Fin 0"
| "fexp fp NaN = NaN"

fun flog :: "arith \<Rightarrow> float64 \<Rightarrow> float64" where
  "flog fp (Fin x) = (if 0 < x then log64 fp x else if x = 0 then NInf else NaN)"
| "flog fp PInf = PInf"
| "flog fp NInf = NaN"
| "flog fp NaN = NaN"

fun fsqrt :: "arith \<Rightarrow> float64 \<Rightarrow> float64" where
  "fsqrt fp (Fin x) = (if 0 \<le> x then rounded fp (sqrt x) else NaN)"
| "fsqrt fp PInf = PInf"
| "fsqrt fp NInf = NaN"
| "fsqrt fp NaN = NaN"

text \<open>
  Broadcasting of one-dimensional shapes: equal lengths, or one of them is 1.
\<close>

definition broadcast_shapes :: "nat \<Rightarrow> nat \<Rightarrow> nat option" where
  "broadcast_shapes m n =
     (if m = n then Some m else if m = 1 then Some n else if n = 1 then Some m else None)"

definition broadcast_to :: "nat \<Rightarrow> ARRAY \<Rightarrow> ARRAY" where
  "broadcast_to n xs = (if length xs = n then xs else replicate n (hd xs))"

text \<open>
  A binary ufunc. An operand that is already an exception propagates it; operands whose
  shapes do not broadcast raise \<open>ValueError\<close>.
\<close>

definition broadcast2 :: "(float64 \<Rightarrow> float64 \<Rightarrow> float64) \<Rightarrow> result \<Rightarrow> result \<Rightarrow> result" where
  "broadcast2 f a b =
     (case a of Inl e \<Rightarrow> Inl e | Inr xs \<Rightarrow>
       (case b of Inl e \<Rightarrow> Inl e | Inr ys \<Rightarrow>
         (case broadcast_shapes (length xs) (length ys) of
            None \<Rightarrow> Inl ValueError
          | Some n \<Rightarrow> Inr (map2 f (broadcast_to n xs) (broadcast_to n ys)))))"

definition ufunc1 :: "(float64 \<Rightarrow> float64) \<Rightarrow> result \<Rightarrow> result" where
  "ufunc1 f a = (case a of Inl e \<Rightarrow> Inl e | Inr xs \<Rightarrow> Inr (map f xs))"

definition np_add :: "arith \<Rightarrow> result \<Rightarrow> result \<Rightarrow> result" where
  "np_add fp = broadcast2 (fadd fp)"

definition np_sub :: "arith \<Rightarrow> result \<Rightarrow> result \<Rightarrow> result" where
  "np_sub fp = broadcast2 (fsub fp)"

definition np_mul :: "arith \<Rightarrow> result \<Rightarrow> result \<Rightarrow> result" where
  "np_mul fp = broadcast2 (fmul fp)"

definition np_div :: "arith \<Rightarrow> result \<Rightarrow> result \<Rightarrow> result" where
  "np_div fp = broadcast2 (fdiv fp)"

definition np_neg :: "result \<Rightarrow> result" where
  "np_neg = ufunc1 fneg"

definition np_exp :: "arith \<Rightarrow> result \<Rightarrow> result" where
  "np_exp fp = ufunc1 (fexp fp)"

definition np_log :: "arith \<Rightarrow> result \<Rightarrow> result" where
  "np_log fp = ufunc1 (flog fp)"

definition np_sqrt :: "arith \<Rightarrow> result \<Rightarrow> result" where
  "np_sqrt fp = ufunc1 (fsqrt fp)"

definition np_zeros_like :: "ARRAY \<Rightarrow> result" where
  "np_zeros_like xs = Inr (replicate (length xs) (Fin 0))"

text \<open>
  A Python number as an operand of an array expression: it broadcasts against an array
  of any length, as an array of length 1 does.
\<close>

definition scalar :: "real \<Rightarrow> result" where
  "scalar c = Inr [Fin c]"

text \<open>A call whose argument is itself computed: the argument is evaluated first.\<close>

definition with_array :: "result \<Rightarrow> (ARRAY \<Rightarrow> result) \<Rightarrow> result" where
  "with_array r f = (case r of Inl e \<Rightarrow> Inl e | Inr xs \<Rightarrow> f xs)"

text \<open>
  An arithmetic to compute with: it rounds nothing. A result is exact unless it is
  beyond the largest double, \<open>exp\<close> of a number gives 0 where the value is below half
  the least double, and the logarithm is exact. It gives what the doubles give wherever
  every intermediate value is a double, an infinity or NaN, and wherever the outcome
  does not depend on how the other intermediate values are rounded; the
  counterexamples below are of this kind.
\<close>

definition range64 :: arith where
  "range64 =
     \<lparr>rnd = (\<lambda>x. if x < 2 ^ 1024 - 2 ^ 970 then Some x else None),
      exp64 = (\<lambda>x. if exp x < 1 / 2 ^ 1075 then Fin 0
                    else if exp x < 2 ^ 1024 - 2 ^ 970 then Fin (exp x) else PInf),
      log64 = (\<lambda>x. Fin (ln x))\<rparr>"

section \<open>Parameters\<close>

text \<open>
  Modelled from the spec: \<^verbatim>\<open>HestonParams\<close> and \<^verbatim>\<open>Correlation\<close> are imported from
  \<^verbatim>\<open>heston_model\<close>, which is not among the sources. The spec gives their fields:
  the triple \<open>kappa\<close>, \<open>mean_of_var\<close>, \<open>vol_of_var\<close> and the correlation
  \<open>rho_spot_imp\<close>, all finite numbers.
\<close>

record HestonParams =
  kappa :: real
  mean_of_var :: real
  vol_of_var :: real

record Correlation =
  rho_spot_imp :: real

section \<open>WeightedVarianceSwap\<close>

text \<open>The attributes that \<^verbatim>\<open>__init__\<close> stores.\<close>

record WeightedVarianceSwap =
  imp_var_params :: HestonParams
  real_var_params :: HestonParams
  corr :: Correlation

text \<open>
  \<^verbatim>\<open>__init__\<close> assigns the three arguments and has no \<^verbatim>\<open>raise\<close>. The result type
  has a place for an exception so that a rejecting constructor can be told from this one.
\<close>

definition WeightedVarianceSwap_init ::
  "HestonParams \<Rightarrow> HestonParams \<Rightarrow> Correlation \<Rightarrow> error + WeightedVarianceSwap" where
  "WeightedVarianceSwap_init imp_var_params' real_var_params' corr' =
     Inr \<lparr>imp_var_params = imp_var_params', real_var_params = real_var_params', corr = corr'\<rparr>"

text \<open>
  The abstract methods, which a concrete class supplies. \<open>gamma_pnl\<close> is a static
  method and takes no instance.
\<close>

record wvs_class =
  price :: "WeightedVarianceSwap \<Rightarrow> ARRAY \<Rightarrow> ARRAY \<Rightarrow> result"
  var_vega :: "WeightedVarianceSwap \<Rightarrow> ARRAY \<Rightarrow> result"
  gamma_pnl :: "ARRAY \<Rightarrow> ARRAY \<Rightarrow> result"
  vanna_pnl :: "WeightedVarianceSwap \<Rightarrow> ARRAY \<Rightarrow> ARRAY \<Rightarrow> ARRAY \<Rightarrow> ARRAY \<Rightarrow> ARRAY \<Rightarrow> ARRAY \<Rightarrow> result"

text \<open>The methods of the base class compute in the arithmetic \<open>fp\<close>.\<close>

definition forward_var_vega ::
  "arith \<Rightarrow> wvs_class \<Rightarrow> WeightedVarianceSwap \<Rightarrow> ARRAY \<Rightarrow> ARRAY \<Rightarrow> result" where
  "forward_var_vega fp cls self tau_front tau_back =
     np_sub fp (var_vega cls self tau_back) (var_vega cls self tau_front)"

definition var_skew_stikiness_ratio ::
  "arith \<Rightarrow> WeightedVarianceSwap \<Rightarrow> ARRAY \<Rightarrow> ARRAY \<Rightarrow> result" where
  "var_skew_stikiness_ratio fp self real_var imp_var =
     np_div fp
       (np_mul fp
          (np_mul fp (scalar (rho_spot_imp (corr self)))
                     (scalar (vol_of_var (imp_var_params self))))
          (np_sqrt fp (Inr imp_var)))
       (np_sqrt fp (Inr real_var))"

definition min_var_delta ::
  "arith \<Rightarrow> wvs_class \<Rightarrow> WeightedVarianceSwap \<Rightarrow> ARRAY \<Rightarrow> ARRAY \<Rightarrow> ARRAY \<Rightarrow> ARRAY \<Rightarrow> result" where
  "min_var_delta fp cls self real_var imp_var tau_0 tau_t =
     (let forward_var_vega' =
            with_array (np_sub fp (Inr tau_0) (Inr tau_t))
              (\<lambda>tau_front. forward_var_vega fp cls self tau_front tau_0);
          ssr = var_skew_stikiness_ratio fp self real_var imp_var
      in np_mul fp forward_var_vega' ssr)"

definition vega_hedge_pnl ::
  "arith \<Rightarrow> wvs_class \<Rightarrow> WeightedVarianceSwap \<Rightarrow> ARRAY \<Rightarrow> ARRAY \<Rightarrow> ARRAY \<Rightarrow> ARRAY \<Rightarrow> ARRAY \<Rightarrow> ARRAY \<Rightarrow> result" where
  "vega_hedge_pnl fp cls self f_0 f_t real_var_0 imp_var_0 tau_0 tau_t =
     (let min_var_delta' = min_var_delta fp cls self real_var_0 imp_var_0 tau_0 tau_t
      in np_mul fp (np_neg min_var_delta') (np_sub fp (Inr f_t) (Inr f_0)))"

definition total_pnl ::
  "arith \<Rightarrow> wvs_class \<Rightarrow> WeightedVarianceSwap \<Rightarrow> ARRAY \<Rightarrow> ARRAY \<Rightarrow> ARRAY \<Rightarrow> ARRAY \<Rightarrow> ARRAY \<Rightarrow> ARRAY \<Rightarrow> ARRAY \<Rightarrow> result" where
  "total_pnl fp cls self f_0 f_t real_var_0 imp_var_0 tau_0 imp_var_t tau_t =
     (let price_0 = price cls self imp_var_0 tau_0;
          price_t = price cls self imp_var_t tau_t;
          vanna_pnl' = vanna_pnl cls self imp_var_0 tau_0 imp_var_t tau_t f_0 f_t;
          gamma_pnl' = gamma_pnl cls f_0 f_t;
          vega_hedge_pnl' = vega_hedge_pnl fp cls self f_0 f_t real_var_0 imp_var_0 tau_0 tau_t
      in np_add fp (np_add fp (np_add fp (np_sub fp price_t price_0) vanna_pnl') gamma_pnl')
           vega_hedge_pnl')"

definition theta_pnl ::
  "arith \<Rightarrow> wvs_class \<Rightarrow> WeightedVarianceSwap \<Rightarrow> ARRAY \<Rightarrow> ARRAY \<Rightarrow> ARRAY \<Rightarrow> result" where
  "theta_pnl fp cls self imp_var_0 tau_0 tau_t =
     np_neg (with_array (np_sub fp (Inr tau_t) (Inr tau_0))
               (\<lambda>tau. price cls self imp_var_0 tau))"

definition var_vega_pnl ::
  "arith \<Rightarrow> wvs_class \<Rightarrow> WeightedVarianceSwap \<Rightarrow> ARRAY \<Rightarrow> ARRAY \<Rightarrow> ARRAY \<Rightarrow> ARRAY \<Rightarrow> result" where
  "var_vega_pnl fp cls self imp_var_0 tau_0 imp_var_t tau_t =
     (let price_0 = price cls self imp_var_0 tau_0;
          price_t = price cls self imp_var_t tau_t;
          theta_pnl' = theta_pnl fp cls self imp_var_0 tau_0 tau_t
      in np_sub fp (np_sub fp price_t price_0) theta_pnl')"

section \<open>VarianceSwap\<close>

definition VarianceSwap_price ::
  "arith \<Rightarrow> WeightedVarianceSwap \<Rightarrow> ARRAY \<Rightarrow> ARRAY \<Rightarrow> result" where
  "VarianceSwap_price fp self imp_var tau =
     np_add fp
       (np_mul fp (scalar (mean_of_var (imp_var_params self))) (Inr tau))
       (np_div fp
          (np_mul fp
             (np_sub fp (Inr imp_var) (scalar (mean_of_var (imp_var_params self))))
             (np_sub fp (scalar 1)
                (np_exp fp (np_mul fp (scalar (- kappa (imp_var_params self))) (Inr tau)))))
          (scalar (kappa (imp_var_params self))))"

definition VarianceSwap_var_vega :: "arith \<Rightarrow> WeightedVarianceSwap \<Rightarrow> ARRAY \<Rightarrow> result" where
  "VarianceSwap_var_vega fp self tau =
     np_div fp
       (np_sub fp (scalar 1)
          (np_exp fp (np_mul fp (scalar (- kappa (imp_var_params self))) (Inr tau))))
       (scalar (kappa (imp_var_params self)))"

definition VarianceSwap_vanna_pnl ::
  "WeightedVarianceSwap \<Rightarrow> ARRAY \<Rightarrow> ARRAY \<Rightarrow> ARRAY \<Rightarrow> ARRAY \<Rightarrow> ARRAY \<Rightarrow> ARRAY \<Rightarrow> result" where
  "VarianceSwap_vanna_pnl self imp_var_0 tau_0 imp_var_t tau_t f_0 f_t = np_zeros_like imp_var_0"

definition VarianceSwap_gamma_pnl :: "arith \<Rightarrow> ARRAY \<Rightarrow> ARRAY \<Rightarrow> result" where
  "VarianceSwap_gamma_pnl fp f_0 f_t =
     np_mul fp (scalar 2)
       (np_sub fp
          (np_sub fp (np_div fp (Inr f_t) (Inr f_0)) (scalar 1))
          (np_log fp (np_div fp (Inr f_t) (Inr f_0))))"

definition VarianceSwap :: "arith \<Rightarrow> wvs_class" where
  "VarianceSwap fp =
     \<lparr>price = VarianceSwap_price fp, var_vega = VarianceSwap_var_vega fp,
      gamma_pnl = VarianceSwap_gamma_pnl fp, vanna_pnl = VarianceSwap_vanna_pnl\<rparr>"

section \<open>Shapes, elements and the values at one element\<close>

text \<open>
  The definitions of this section are not part of the program. \<open>join_shapes\<close> is
  \<open>broadcast_shapes\<close> on shapes of results, where \<open>None\<close> is the shape of a raised
  exception, and \<open>shapes\<close> is the common shape of several arrays, as
  \<^verbatim>\<open>np.broadcast_shapes\<close> computes it. \<open>item r i\<close> is the element that the result
  \<open>r\<close> contributes at index \<open>i\<close> after broadcasting. \<open>rep r s g\<close> says that \<open>r\<close>
  has shape \<open>s\<close> and the elements \<open>g 0\<close>, \<open>g 1\<close>, ...; it lets two array expressions
  be compared by their shapes and element by element.
\<close>

definition join_shapes :: "nat option \<Rightarrow> nat option \<Rightarrow> nat option" where
  "join_shapes s t =
     (case s of None \<Rightarrow> None | Some m \<Rightarrow> (case t of None \<Rightarrow> None | Some n \<Rightarrow> broadcast_shapes m n))"

fun shapes :: "ARRAY list \<Rightarrow> nat option" where
  "shapes [] = Some 1"
| "shapes (xs # xss) = join_shapes (Some (length xs)) (shapes xss)"

definition shape_of :: "result \<Rightarrow> nat option" where
  "shape_of r = (case r of Inl e \<Rightarrow> None | Inr xs \<Rightarrow> Some (length xs))"

definition item :: "result \<Rightarrow> nat \<Rightarrow> float64" where
  "item r i = (case r of Inl e \<Rightarrow> NaN | Inr xs \<Rightarrow> if length xs = 1 then hd xs else xs ! i)"

definition tabulate :: "nat option \<Rightarrow> (nat \<Rightarrow> float64) \<Rightarrow> result" where
  "tabulate s g = (case s of None \<Rightarrow> Inl ValueError | Some n \<Rightarrow> Inr (map g [0..<n]))"

definition uniform :: "(nat \<Rightarrow> float64) \<Rightarrow> bool" where
  "uniform g = (\<forall>i. g i = g 0)"

definition rep :: "result \<Rightarrow> nat option \<Rightarrow> (nat \<Rightarrow> float64) \<Rightarrow> bool" where
  "rep r s g = (r = tabulate s g \<and> (if s = Some 1 then uniform g else True))"

text \<open>
  What each method of \<open>VarianceSwap\<close> computes at one element, in the arithmetic
  \<open>fp\<close>.
\<close>

definition price_at :: "arith \<Rightarrow> HestonParams \<Rightarrow> float64 \<Rightarrow> float64 \<Rightarrow> float64" where
  "price_at fp p v t =
     fadd fp (fmul fp (Fin (mean_of_var p)) t)
       (fdiv fp (fmul fp (fsub fp v (Fin (mean_of_var p)))
                   (fsub fp (Fin 1) (fexp fp (fmul fp (Fin (- kappa p)) t))))
          (Fin (kappa p)))"

definition var_vega_at :: "arith \<Rightarrow> HestonParams \<Rightarrow> float64 \<Rightarrow> float64" where
  "var_vega_at fp p t =
     fdiv fp (fsub fp (Fin 1) (fexp fp (fmul fp (Fin (- kappa p)) t))) (Fin (kappa p))"

definition gamma_at :: "arith \<Rightarrow> float64 \<Rightarrow> float64 \<Rightarrow> float64" where
  "gamma_at fp a b =
     fmul fp (Fin 2) (fsub fp (fsub fp (fdiv fp b a) (Fin 1)) (flog fp (fdiv fp b a)))"

definition ssr_at :: "arith \<Rightarrow> WeightedVarianceSwap \<Rightarrow> float64 \<Rightarrow> float64 \<Rightarrow> float64" where
  "ssr_at fp self rv iv =
     fdiv fp
       (fmul fp (fmul fp (Fin (rho_spot_imp (corr self))) (Fin (vol_of_var (imp_var_params self))))
          (fsqrt fp iv))
       (fsqrt fp rv)"

definition delta_at ::
  "arith \<Rightarrow> WeightedVarianceSwap \<Rightarrow> float64 \<Rightarrow> float64 \<Rightarrow> float64 \<Rightarrow> float64 \<Rightarrow> float64" where
  "delta_at fp self rv iv t0 tt =
     fmul fp (fsub fp (var_vega_at fp (imp_var_params self) t0)
                (var_vega_at fp (imp_var_params self) (fsub fp t0 tt)))
       (ssr_at fp self rv iv)"

definition hedge_at ::
  "arith \<Rightarrow> WeightedVarianceSwap \<Rightarrow> float64 \<Rightarrow> float64 \<Rightarrow> float64 \<Rightarrow> float64 \<Rightarrow> float64 \<Rightarrow> float64 \<Rightarrow> float64" where
  "hedge_at fp self f0 ft rv iv t0 tt =
     fmul fp (fneg (delta_at fp self rv iv t0 tt)) (fsub fp ft f0)"

definition total_at ::
  "arith \<Rightarrow> WeightedVarianceSwap \<Rightarrow> float64 \<Rightarrow> float64 \<Rightarrow> float64 \<Rightarrow> float64 \<Rightarrow> float64 \<Rightarrow> float64 \<Rightarrow> float64 \<Rightarrow> float64" where
  "total_at fp self f0 ft rv iv0 t0 ivt tt =
     fadd fp (fadd fp (fadd fp (fsub fp (price_at fp (imp_var_params self) ivt tt)
                                  (price_at fp (imp_var_params self) iv0 t0))
                         (Fin 0))
                (gamma_at fp f0 ft))
       (hedge_at fp self f0 ft rv iv0 t0 tt)"




section \<open>Broadcasting\<close>

lemma error_eq: "(e::error) = e'"
  by (cases e; cases e') simp

lemma join_shapes_commute: "join_shapes s t = join_shapes t s"
  by (auto simp: join_shapes_def broadcast_shapes_def split: option.splits)

lemma join_shapes_assoc: "join_shapes (join_shapes s t) u = join_shapes s (join_shapes t u)"
  by (auto simp: join_shapes_def broadcast_shapes_def split: option.splits if_splits)

lemma join_shapes_left_commute: "join_shapes s (join_shapes t u) = join_shapes t (join_shapes s u)"
  by (auto simp: join_shapes_def broadcast_shapes_def split: option.splits if_splits)

lemma join_shapes_idem: "join_shapes s s = s"
  by (auto simp: join_shapes_def broadcast_shapes_def split: option.splits)

lemma join_shapes_left_idem: "join_shapes s (join_shapes s t) = join_shapes s t"
  by (auto simp: join_shapes_def broadcast_shapes_def split: option.splits if_splits)

lemma join_shapes_one:
  "join_shapes (Some 1) s = s" "join_shapes s (Some 1) = s"
  "join_shapes (Some (Suc 0)) s = s" "join_shapes s (Some (Suc 0)) = s"
  "join_shapes s (join_shapes (Some (Suc 0)) t) = join_shapes s t"
  by (auto simp: join_shapes_def broadcast_shapes_def split: option.splits)

lemma join_shapes_None: "join_shapes None s = None" "join_shapes s None = None"
  by (auto simp: join_shapes_def split: option.splits)

lemmas join_shapes_ac = join_shapes_assoc join_shapes_commute join_shapes_left_commute
  join_shapes_idem join_shapes_left_idem join_shapes_one join_shapes_None

lemma join_shapes_Some:
  "join_shapes (Some m) s = Some n \<Longrightarrow> (m = n \<or> m = 1) \<and> (s = Some n \<or> s = Some 1)"
  by (auto simp: join_shapes_def broadcast_shapes_def split: option.splits if_splits)

lemma shapes_length:
  "shapes xss = Some n \<Longrightarrow> xs \<in> set xss \<Longrightarrow> length xs = n \<or> length xs = 1"
proof (induction xss arbitrary: n)
  case Nil
  then show ?case by simp
next
  case (Cons ys yss)
  from Cons.prems(1) have *: "(length ys = n \<or> length ys = 1) \<and> (shapes yss = Some n \<or> shapes yss = Some 1)"
    using join_shapes_Some [of "length ys" "shapes yss" n] by simp
  show ?case
  proof (cases "xs = ys")
    case True
    with * show ?thesis by simp
  next
    case False
    with Cons.prems(2) have "xs \<in> set yss" by simp
    with * Cons.IH show ?thesis by blast
  qed
qed

lemma item_nth: "i < length xs \<Longrightarrow> item (Inr xs) i = xs ! i"
  by (cases xs) (auto simp: item_def)

lemma item_map_Fin:
  assumes "length xs = n \<or> length xs = 1" "i < n"
  shows "\<exists>v. v \<in> set xs \<and> item (Inr (map Fin xs)) i = Fin v"
proof (cases "length xs = 1")
  case True
  then obtain x where "xs = [x]" by (cases xs) auto
  then show ?thesis by (simp add: item_def)
next
  case False
  with assms have "i < length xs" by simp
  then show ?thesis using False by (auto simp: item_def)
qed

lemma uniform_item: "length xs = 1 \<Longrightarrow> uniform (item (Inr xs))"
  by (simp add: uniform_def item_def)

lemma tabulate_item: "tabulate (Some (length xs)) (item (Inr xs)) = Inr xs"
proof -
  have "map (item (Inr xs)) [0..<length xs] = xs"
    by (rule nth_equalityI) (simp_all add: item_nth)
  then show ?thesis by (simp add: tabulate_def)
qed

lemma rep_input: "rep (Inr xs) (Some (length xs)) (item (Inr xs))"
  by (simp add: rep_def tabulate_item uniform_item)

lemma rep_any: "rep r (shape_of r) (item r)"
proof (cases r)
  case (Inl e)
  then show ?thesis by (simp add: rep_def shape_of_def tabulate_def error_eq [of e ValueError])
next
  case (Inr xs)
  then show ?thesis using rep_input [of xs] by (simp add: shape_of_def)
qed

lemma rep_scalar: "rep (scalar c) (Some 1) (\<lambda>i. Fin c)"
  by (simp add: rep_def scalar_def tabulate_def uniform_def)

lemma uniform_comp1: "uniform g \<Longrightarrow> uniform (\<lambda>i. f (g i))"
  unfolding uniform_def by metis

lemma uniform_comp2: "uniform g \<Longrightarrow> uniform h \<Longrightarrow> uniform (\<lambda>i. f (g i) (h i))"
  unfolding uniform_def by metis

lemma rep_ufunc1:
  assumes "rep a s g"
  shows "rep (ufunc1 f a) s (\<lambda>i. f (g i))"
proof -
  have "ufunc1 f (tabulate s g) = tabulate s (\<lambda>i. f (g i))"
    by (simp add: ufunc1_def tabulate_def split: option.splits)
  with assms show ?thesis
    by (auto simp: rep_def intro: uniform_comp1 split: if_splits)
qed

lemma broadcast_to_tab:
  assumes "broadcast_shapes m n = Some k" "m = 1 \<Longrightarrow> uniform g"
  shows "broadcast_to k (map g [0..<m]) = map g [0..<k]"
proof (cases "m = k")
  case True
  then show ?thesis by (simp add: broadcast_to_def)
next
  case False
  with assms have m: "m = 1" by (auto simp: broadcast_shapes_def split: if_splits)
  with assms(2) have g: "\<And>i. g i = g 0" unfolding uniform_def by blast
  have "map g [0..<k] = replicate k (g 0)"
  proof (rule nth_equalityI)
    show "length (map g [0..<k]) = length (replicate k (g 0))" by simp
  next
    fix i assume "i < length (map g [0..<k])"
    then show "map g [0..<k] ! i = replicate k (g 0) ! i" using g [of i] by simp
  qed
  with False m show ?thesis by (simp add: broadcast_to_def)
qed

lemma rep_broadcast2:
  assumes "rep a s g" "rep b t h"
  shows "rep (broadcast2 f a b) (join_shapes s t) (\<lambda>i. f (g i) (h i))"
proof (cases "join_shapes s t")
  case None
  have "broadcast2 f (tabulate s g) (tabulate t h) = Inl ValueError"
    using None
    by (auto simp: broadcast2_def tabulate_def join_shapes_def split: option.splits)
  with None assms show ?thesis
    by (simp add: rep_def tabulate_def)
next
  case (Some k)
  then obtain m n where s: "s = Some m" and t: "t = Some n" and k: "broadcast_shapes m n = Some k"
    by (auto simp: join_shapes_def split: option.splits)
  have k': "broadcast_shapes n m = Some k"
    using k by (auto simp: broadcast_shapes_def split: if_splits)
  from assms s t have a: "a = Inr (map g [0..<m])" and b: "b = Inr (map h [0..<n])"
    and gc: "m = 1 \<Longrightarrow> uniform g" and hc: "n = 1 \<Longrightarrow> uniform h"
    by (auto simp: rep_def tabulate_def)
  have "broadcast2 f a b = Inr (map2 f (map g [0..<k]) (map h [0..<k]))"
    using a b k broadcast_to_tab [OF k gc] broadcast_to_tab [OF k' hc]
    by (simp add: broadcast2_def)
  also have "map2 f (map g [0..<k]) (map h [0..<k]) = map (\<lambda>i. f (g i) (h i)) [0..<k]"
    by (rule nth_equalityI) simp_all
  finally have 1: "broadcast2 f a b = tabulate (Some k) (\<lambda>i. f (g i) (h i))"
    by (simp add: tabulate_def)
  have 2: "uniform (\<lambda>i. f (g i) (h i))" if "k = 1"
  proof -
    from that k have "m = 1" "n = 1" by (auto simp: broadcast_shapes_def split: if_splits)
    with gc hc show ?thesis by (simp add: uniform_comp2)
  qed
  show ?thesis using 1 2 Some by (simp add: rep_def)
qed

lemma rep_eqI:
  assumes "rep a s g" "rep b t h" "s = t" "\<And>i. g i = h i"
  shows "a = b"
proof -
  have "g = h" using assms(4) by (simp add: fun_eq_iff)
  with assms show ?thesis by (simp add: rep_def)
qed

lemma rep_with_array:
  assumes "rep d s g" "\<And>xs. rep (Inr xs) s g \<Longrightarrow> rep (F xs) u H" "s = None \<Longrightarrow> u = None"
  shows "rep (with_array d F) u H"
proof (cases d)
  case (Inl e)
  with assms(1) have "s = None" by (auto simp: rep_def tabulate_def split: option.splits)
  with assms(3) Inl show ?thesis
    by (simp add: with_array_def rep_def tabulate_def error_eq [of e ValueError])
next
  case (Inr xs)
  with assms show ?thesis by (simp add: with_array_def)
qed

lemma rep_weaken: "rep a s g \<Longrightarrow> s = s' \<Longrightarrow> g = g' \<Longrightarrow> rep a s' g'"
  by simp

lemmas rep_intros = rep_broadcast2 rep_ufunc1 rep_scalar

lemma rep_replicate:
  assumes "rep r (Some n) g" "\<And>i. i < n \<Longrightarrow> g i = c"
  shows "r = Inr (replicate n c)"
proof -
  have "map g [0..<n] = replicate n c"
    by (rule nth_equalityI) (simp_all add: assms(2))
  with assms(1) show ?thesis by (simp add: rep_def tabulate_def)
qed

lemma rep_finite:
  assumes "rep r s g" "r = Inr (map Fin ps)" "join_shapes s t = Some n" "i < n"
  shows "\<exists>p. g i = Fin p"
proof -
  from assms(1,2) obtain m where s: "s = Some m" and tab: "map g [0..<m] = map Fin ps"
    by (auto simp: rep_def tabulate_def split: option.splits)
  from tab have len: "length ps = m" by (metis length_map length_upt minus_nat.diff_0)
  have el: "g j = Fin (ps ! j)" if "j < m" for j
  proof -
    from that have "map g [0..<m] ! j = g j" by simp
    moreover from that len have "map Fin ps ! j = Fin (ps ! j)" by simp
    ultimately show ?thesis using tab by simp
  qed
  from assms(3) s have m: "m = n \<or> m = 1" using join_shapes_Some [of m t n] by simp
  show ?thesis
  proof (cases "m = n")
    case True
    with el assms(4) show ?thesis by blast
  next
    case False
    with m have m1: "m = 1" by simp
    with assms(1) s have "uniform g" by (simp add: rep_def)
    then have "g i = g 0" unfolding uniform_def by blast
    with el [of 0] m1 show ?thesis by simp
  qed
qed

lemma rep_np_zeros_like: "rep (np_zeros_like xs) (Some (length xs)) (\<lambda>i. Fin 0)"
proof -
  have "replicate (length xs) (Fin 0) = map (\<lambda>i. Fin 0) [0..<length xs]"
    by (rule nth_equalityI) simp_all
  then show ?thesis by (simp add: rep_def np_zeros_like_def tabulate_def uniform_def)
qed

lemma broadcast2_Inl: "broadcast2 f (Inl e) b = Inl e" "broadcast2 f a (Inl e) = Inl ValueError"
  by (auto simp: broadcast2_def error_eq [of _ ValueError] split: sum.splits)

lemma broadcast2_with_array:
  "broadcast2 f a (with_array d F) = with_array d (\<lambda>xs. broadcast2 f a (F xs))"
  by (cases d) (simp_all add: with_array_def broadcast2_Inl error_eq [of ValueError])


lemma broadcast2_single: "broadcast2 f (Inr [a]) (Inr [b]) = Inr [f a b]"
  by (simp add: broadcast2_def broadcast_shapes_def broadcast_to_def)

section \<open>Arithmetic\<close>

lemma rounded_minus: "rounded fp (- z) = fneg (rounded fp z)"
  by (simp add: rounded_def split: option.splits)

lemma rounded_zero: "rounded fp 0 = Fin 0"
  by (simp add: rounded_def)

lemma signed_inf_minus: "signed_inf (- s) = fneg (signed_inf s)"
  by (simp add: signed_inf_def)

lemma fneg_fmul: "fneg (fmul fp a b) = fmul fp (fneg a) b"
  by (cases a; cases b) (simp_all add: rounded_minus [symmetric] signed_inf_minus [symmetric])

lemma fsub_self: "fsub fp (Fin x) (Fin x) = Fin 0"
  by (simp add: fsub_def rounded_def)


lemma fadd_NaN: "fadd fp a NaN = NaN"
  by (cases a) simp_all

lemma fmul_NaN: "fmul fp a NaN = NaN"
  by (cases a) simp_all





lemmas np_defs = np_add_def np_sub_def np_mul_def np_div_def np_neg_def np_exp_def np_log_def
  np_sqrt_def

lemma np_neg_np_mul: "np_neg (np_mul fp a b) = np_mul fp (np_neg a) b"
  unfolding np_defs
  by (rule rep_eqI [OF rep_ufunc1 [OF rep_broadcast2 [OF rep_any rep_any]]
        rep_broadcast2 [OF rep_ufunc1 [OF rep_any] rep_any]])
    (simp_all add: fneg_fmul)

lemmas eval_defs = broadcast2_def broadcast_shapes_def broadcast_to_def ufunc1_def scalar_def
  with_array_def np_zeros_like_def np_defs fsub_def

lemmas model_defs = total_pnl_def theta_pnl_def var_vega_pnl_def vega_hedge_pnl_def
  min_var_delta_def forward_var_vega_def var_skew_stikiness_ratio_def VarianceSwap_price_def
  VarianceSwap_var_vega_def VarianceSwap_gamma_pnl_def VarianceSwap_vanna_pnl_def Let_def

section \<open>The arithmetic that rounds nothing\<close>

lemma two_power_le_exp: "(2::real) ^ n \<le> exp (real n)"
proof -
  have "(2::real) \<le> exp 1" using exp_ge_add_one_self [of "1::real"] by simp
  then have "(2::real) ^ n \<le> exp 1 ^ n" by (simp add: power_mono)
  also have "\<dots> = exp (real n)" using exp_of_nat_mult [of n "1::real"] by simp
  finally show ?thesis .
qed

lemma exp_overflow: "2 ^ 1024 \<le> exp (2000::real)"
proof -
  have "(2::real) ^ 1024 \<le> 2 ^ 2000" by (rule power_increasing) simp_all
  also have "\<dots> \<le> exp (real 2000)" by (rule two_power_le_exp)
  finally show ?thesis by simp
qed

lemma exp_underflow: "exp (- 2000 :: real) < 1 / 2 ^ 1075"
proof -
  have "(2::real) ^ 1075 < 2 ^ 2000" by (rule power_strict_increasing) simp_all
  also have "\<dots> \<le> exp (real 2000)" by (rule two_power_le_exp)
  finally have "(2::real) ^ 1075 < exp 2000" by simp
  then have "1 / exp (2000::real) < 1 / 2 ^ 1075"
    by (simp add: frac_less2)
  then show ?thesis by (simp add: exp_minus inverse_eq_divide)
qed

lemma largest: "(2::real) ^ 1000 < 2 ^ 1024 - 2 ^ 970"
proof -
  have "(2::real) ^ 1024 = 2 ^ 1000 * 2 ^ 24" "(2::real) ^ 1000 = 2 ^ 970 * 2 ^ 30"
    by (simp_all add: power_add [symmetric])
  then have "(2::real) ^ 1024 - 2 ^ 970 - 2 ^ 1000 = 2 ^ 970 * (2 ^ 30 * 2 ^ 24 - 1 - 2 ^ 30)"
    by (simp add: algebra_simps)
  moreover have "(0::real) < 2 ^ 970 * (2 ^ 30 * 2 ^ 24 - 1 - 2 ^ 30)"
    by (rule mult_pos_pos) simp_all
  ultimately show ?thesis by simp
qed


lemma rounded_range64: "\<bar>z\<bar> \<le> 2 ^ 1000 \<Longrightarrow> rounded range64 z = Fin z"
  using largest by (auto simp: rounded_def range64_def)

lemma rounded_range64_small: "\<bar>z\<bar> \<le> 4096 \<Longrightarrow> rounded range64 z = Fin z"
proof (rule rounded_range64)
  assume "\<bar>z\<bar> \<le> 4096"
  moreover have "(2::real) ^ 12 \<le> 2 ^ 1000" by (rule power_increasing) simp_all
  ultimately show "\<bar>z\<bar> \<le> 2 ^ 1000" by simp
qed

lemma exp64_range64_zero: "exp64 range64 0 = Fin 1"
proof -
  have "(1::real) < 2 ^ 1024 - 2 ^ 970" using largest one_le_power [of "2::real" 1000] by linarith
  then show ?thesis by (simp add: range64_def)
qed

lemma exp64_range64_overflow: "exp64 range64 2000 = PInf"
proof -
  have "\<not> exp (2000::real) < 2 ^ 1024 - 2 ^ 970" using exp_overflow by simp
  moreover have "\<not> exp (2000::real) < 1 / 2 ^ 1075"
  proof -
    have "(1::real) / 2 ^ 1075 \<le> 1" by simp
    also have "(1::real) \<le> 2 ^ 1024" by simp
    finally show ?thesis using exp_overflow by linarith
  qed
  ultimately show ?thesis by (simp add: range64_def)
qed

lemma exp64_range64_underflow: "exp64 range64 (- 2000) = Fin 0"
  using exp_underflow by (simp add: range64_def)

lemma exp_minus_two: "(1::real) / 16 \<le> exp (- 2)" "exp (- 2 :: real) < 1"
proof -
  have "exp (1 / 2 :: real) \<le> 1 + 1 / 2 + (1 / 2)\<^sup>2" by (rule exp_bound) simp_all
  then have h: "exp (1 / 2 :: real) \<le> 2" by (simp add: power2_eq_square)
  have "exp (2::real) = exp (1 / 2) ^ 4" using exp_of_nat_mult [of 4 "1 / 2 :: real"] by simp
  also have "\<dots> \<le> 2 ^ 4" using h by (intro power_mono) simp_all
  finally have "exp (2::real) \<le> 16" by simp
  then have "1 / 16 \<le> 1 / exp (2::real)" by (simp add: frac_le)
  then show "(1::real) / 16 \<le> exp (- 2)" by (simp add: exp_minus inverse_eq_divide)
  show "exp (- 2 :: real) < 1" by simp
qed

lemma exp64_range64_minus_two: "exp64 range64 (- 2) = Fin (exp (- 2))"
proof -
  have "(2::real) ^ 4 \<le> 2 ^ 1075" by (rule power_increasing) simp_all
  then have "(16::real) \<le> 2 ^ 1075" by simp
  then have "(1::real) / 2 ^ 1075 \<le> 1 / 16" by (intro frac_le) simp_all
  with exp_minus_two(1) have "\<not> exp (- 2 :: real) < 1 / 2 ^ 1075" by linarith
  moreover have "exp (- 2 :: real) < 2 ^ 1024 - 2 ^ 970"
    using exp_minus_two(2) largest one_le_power [of "2::real" 1000] by linarith
  ultimately show ?thesis by (simp add: range64_def)
qed

lemma log64_range64: "log64 range64 x = Fin (ln x)"
  by (simp add: range64_def)

lemma sqrt_quarter: "sqrt (1 / 4) = 1 / 2"
  by (rule real_sqrt_unique) (simp_all add: power2_eq_square)

lemma small_values:
  fixes x :: real
  assumes "0 \<le> x" "x \<le> 1"
  shows "\<bar>1 - x\<bar> \<le> 4096" "\<bar>5 / 100 * (1 - x)\<bar> \<le> 4096"
    "\<bar>5 / 100 * (1 - x) / 2\<bar> \<le> 4096" "\<bar>4 / 100 + 5 / 100 * (1 - x) / 2\<bar> \<le> 4096"
proof -
  from assms have "0 \<le> 1 - x" "1 - x \<le> 1" by simp_all
  then have "0 \<le> 5 / 100 * (1 - x)" "5 / 100 * (1 - x) \<le> 5 / 100"
    by simp_all
  then have h: "0 \<le> 5 / 100 * (1 - x) / 2" "5 / 100 * (1 - x) / 2 \<le> 5 / 100"
    by simp_all
  from \<open>0 \<le> 1 - x\<close> \<open>1 - x \<le> 1\<close> show "\<bar>1 - x\<bar> \<le> 4096" by simp
  from \<open>0 \<le> 5 / 100 * (1 - x)\<close> \<open>5 / 100 * (1 - x) \<le> 5 / 100\<close>
  show "\<bar>5 / 100 * (1 - x)\<bar> \<le> 4096" by (simp add: abs_of_nonneg)
  from h show "\<bar>5 / 100 * (1 - x) / 2\<bar> \<le> 4096" by (simp add: abs_of_nonneg)
  from h have "0 \<le> 4 / 100 + 5 / 100 * (1 - x) / 2" "4 / 100 + 5 / 100 * (1 - x) / 2 \<le> 1"
    by linarith+
  then show "\<bar>4 / 100 + 5 / 100 * (1 - x) / 2\<bar> \<le> 4096" by (simp add: abs_of_nonneg)
qed



section \<open>The methods, element by element\<close>

lemma VarianceSwap_sel [simp]:
  "price (VarianceSwap fp) = VarianceSwap_price fp"
  "var_vega (VarianceSwap fp) = VarianceSwap_var_vega fp"
  "gamma_pnl (VarianceSwap fp) = VarianceSwap_gamma_pnl fp"
  "vanna_pnl (VarianceSwap fp) = VarianceSwap_vanna_pnl"
  by (simp_all add: VarianceSwap_def)

lemma rep_VarianceSwap_price:
  assumes "rep (Inr imp_var) s g" "rep (Inr tau) t h"
  shows "rep (VarianceSwap_price fp self imp_var tau) (join_shapes s t)
           (\<lambda>i. price_at fp (imp_var_params self) (g i) (h i))"
  unfolding VarianceSwap_price_def np_defs
  apply (rule rep_weaken)
    apply (rule rep_intros assms)+
   apply (simp add: join_shapes_ac)
  apply (simp add: price_at_def)
  done

lemma rep_VarianceSwap_var_vega:
  assumes "rep (Inr tau) t h"
  shows "rep (VarianceSwap_var_vega fp self tau) t
           (\<lambda>i. var_vega_at fp (imp_var_params self) (h i))"
  unfolding VarianceSwap_var_vega_def np_defs
  apply (rule rep_weaken)
    apply (rule rep_intros assms)+
   apply (simp add: join_shapes_ac)
  apply (simp add: var_vega_at_def)
  done

lemma rep_VarianceSwap_gamma_pnl:
  assumes "rep (Inr f_0) s g" "rep (Inr f_t) t h"
  shows "rep (VarianceSwap_gamma_pnl fp f_0 f_t) (join_shapes s t) (\<lambda>i. gamma_at fp (g i) (h i))"
  unfolding VarianceSwap_gamma_pnl_def np_defs
  apply (rule rep_weaken)
    apply (rule rep_intros assms)+
   apply (simp add: join_shapes_ac)
  apply (simp add: gamma_at_def)
  done

lemma rep_var_skew_stikiness_ratio:
  assumes "rep (Inr real_var) s g" "rep (Inr imp_var) t h"
  shows "rep (var_skew_stikiness_ratio fp self real_var imp_var) (join_shapes s t)
           (\<lambda>i. ssr_at fp self (g i) (h i))"
  unfolding var_skew_stikiness_ratio_def np_defs
  apply (rule rep_weaken)
    apply (rule rep_intros assms)+
   apply (simp add: join_shapes_ac)
  apply (simp add: ssr_at_def)
  done

lemma rep_min_var_delta:
  "rep (min_var_delta fp (VarianceSwap fp) self real_var imp_var tau_0 tau_t)
     (shapes [tau_0, tau_t, real_var, imp_var])
     (\<lambda>i. delta_at fp self (item (Inr real_var) i) (item (Inr imp_var) i)
             (item (Inr tau_0) i) (item (Inr tau_t) i))"
proof -
  let ?s = "join_shapes (Some (length tau_0)) (Some (length tau_t))"
  let ?g = "\<lambda>i. fsub fp (item (Inr tau_0) i) (item (Inr tau_t) i)"
  let ?h = "\<lambda>i. fsub fp (var_vega_at fp (imp_var_params self) (item (Inr tau_0) i))
                  (var_vega_at fp (imp_var_params self) (?g i))"
  have d: "rep (np_sub fp (Inr tau_0) (Inr tau_t)) ?s ?g"
    unfolding np_sub_def by (rule rep_broadcast2 [OF rep_input rep_input])
  have fvv: "rep (with_array (np_sub fp (Inr tau_0) (Inr tau_t))
               (\<lambda>tau_front. forward_var_vega fp (VarianceSwap fp) self tau_front tau_0))
          (join_shapes (Some (length tau_0)) ?s) ?h"
  proof (rule rep_with_array [OF d])
    fix xs assume xs: "rep (Inr xs) ?s ?g"
    show "rep (forward_var_vega fp (VarianceSwap fp) self xs tau_0)
            (join_shapes (Some (length tau_0)) ?s) ?h"
      unfolding forward_var_vega_def np_sub_def VarianceSwap_sel
      by (rule rep_broadcast2 [OF rep_VarianceSwap_var_vega [OF rep_input]
            rep_VarianceSwap_var_vega [OF xs]])
  next
    assume "?s = None"
    then show "join_shapes (Some (length tau_0)) ?s = None"
      by (simp add: join_shapes_None)
  qed
  have "rep (np_mul fp (with_array (np_sub fp (Inr tau_0) (Inr tau_t))
               (\<lambda>tau_front. forward_var_vega fp (VarianceSwap fp) self tau_front tau_0))
             (var_skew_stikiness_ratio fp self real_var imp_var))
          (join_shapes (join_shapes (Some (length tau_0)) ?s)
             (join_shapes (Some (length real_var)) (Some (length imp_var))))
          (\<lambda>i. fmul fp (?h i) (ssr_at fp self (item (Inr real_var) i) (item (Inr imp_var) i)))"
    unfolding np_mul_def
    by (rule rep_broadcast2 [OF fvv rep_var_skew_stikiness_ratio [OF rep_input rep_input]])
  then show ?thesis
    by (simp add: min_var_delta_def Let_def join_shapes_ac delta_at_def)
qed

lemma rep_vega_hedge_pnl:
  "rep (vega_hedge_pnl fp (VarianceSwap fp) self f_0 f_t real_var_0 imp_var_0 tau_0 tau_t)
     (shapes [f_0, f_t, real_var_0, imp_var_0, tau_0, tau_t])
     (\<lambda>i. hedge_at fp self (item (Inr f_0) i) (item (Inr f_t) i) (item (Inr real_var_0) i)
             (item (Inr imp_var_0) i) (item (Inr tau_0) i) (item (Inr tau_t) i))"
  unfolding vega_hedge_pnl_def Let_def np_mul_def np_neg_def np_sub_def
  apply (rule rep_weaken)
    apply (rule rep_broadcast2 [OF rep_ufunc1 [OF rep_min_var_delta]
                                   rep_broadcast2 [OF rep_input rep_input]])
   apply (simp add: join_shapes_ac)
  apply (simp add: hedge_at_def)
  done

lemma rep_total_pnl:
  "rep (total_pnl fp (VarianceSwap fp) self f_0 f_t real_var_0 imp_var_0 tau_0 imp_var_t tau_t)
     (shapes [f_0, f_t, real_var_0, imp_var_0, tau_0, imp_var_t, tau_t])
     (\<lambda>i. total_at fp self (item (Inr f_0) i) (item (Inr f_t) i) (item (Inr real_var_0) i)
             (item (Inr imp_var_0) i) (item (Inr tau_0) i) (item (Inr imp_var_t) i)
             (item (Inr tau_t) i))"
  unfolding total_pnl_def Let_def np_add_def np_sub_def VarianceSwap_sel
    VarianceSwap_vanna_pnl_def
  apply (rule rep_weaken)
    apply (rule rep_broadcast2 [OF rep_broadcast2 [OF rep_broadcast2 [OF rep_broadcast2
            [OF rep_VarianceSwap_price [OF rep_input rep_input]
                rep_VarianceSwap_price [OF rep_input rep_input]]
            rep_np_zeros_like]
            rep_VarianceSwap_gamma_pnl [OF rep_input rep_input]]
            rep_vega_hedge_pnl])
   apply (simp add: join_shapes_ac)
  apply (simp add: total_at_def)
  done

lemma VarianceSwap_price_elementwise:
  "VarianceSwap_price fp self imp_var tau =
     broadcast2 (price_at fp (imp_var_params self)) (Inr imp_var) (Inr tau)"
  by (rule rep_eqI [OF rep_VarianceSwap_price [OF rep_input rep_input]
        rep_broadcast2 [OF rep_input rep_input]]) simp_all



lemma gamma_at_same:
  assumes "rnd fp 1 = Some 1" "log64 fp 1 = Fin 0" "x \<noteq> 0"
  shows "gamma_at fp (Fin x) (Fin x) = Fin 0"
  using assms by (simp add: gamma_at_def fsub_def rounded_def)

lemma hedge_at_same:
  "hedge_at fp self (Fin f) (Fin f) rv iv t0 tt = Fin 0" if "delta_at fp self rv iv t0 tt = Fin d"
  using that by (simp add: hedge_at_def fsub_self rounded_def)

lemma total_at_same:
  assumes "rnd fp 1 = Some 1" "log64 fp 1 = Fin 0" "f \<noteq> 0"
    "price_at fp (imp_var_params self) iv t = Fin p" "delta_at fp self rv iv t t = Fin d"
  shows "total_at fp self (Fin f) (Fin f) rv iv t iv t = Fin 0"
  using assms
  by (simp add: total_at_def hedge_at_same gamma_at_same fsub_self rounded_zero)








section \<open>Construction\<close>

text \<open>
  C9, as the code has it. \<^verbatim>\<open>__init__\<close> validates nothing: for every parameter set,
  whatever the sign of \<open>kappa\<close>, construction succeeds and the instance holds the three
  arguments unchanged.
\<close>

theorem init_accepts:
  "WeightedVarianceSwap_init imp_var_params' real_var_params' corr' =
     Inr \<lparr>imp_var_params = imp_var_params', real_var_params = real_var_params', corr = corr'\<rparr>"
  by (simp add: WeightedVarianceSwap_init_def)

text \<open>
  C9 as stated fails: with \<open>kappa = 0\<close> in the implied variance parameters,
  construction returns an instance and raises no configuration error.
\<close>

theorem init_accepts_nonpositive_kappa:
  "WeightedVarianceSwap_init
     \<lparr>kappa = 0, mean_of_var = 4 / 100, vol_of_var = 3 / 10\<rparr>
     \<lparr>kappa = 2, mean_of_var = 4 / 100, vol_of_var = 3 / 10\<rparr>
     \<lparr>rho_spot_imp = - 1 / 2\<rparr> =
   Inr \<lparr>imp_var_params = \<lparr>kappa = 0, mean_of_var = 4 / 100, vol_of_var = 3 / 10\<rparr>,
        real_var_params = \<lparr>kappa = 2, mean_of_var = 4 / 100, vol_of_var = 3 / 10\<rparr>,
        corr = \<lparr>rho_spot_imp = - 1 / 2\<rparr>\<rparr>"
  by (simp add: WeightedVarianceSwap_init_def)

section \<open>The profit and loss decomposition\<close>

text \<open>
  C1. For every arithmetic, every class that supplies the four abstract methods, every
  instance and all inputs, \<open>total_pnl\<close> is
  \<open>price_t - price_0 + vanna_pnl + gamma_pnl + vega_hedge_pnl\<close>, term by term and in this
  order of additions.
\<close>

theorem total_pnl_identity:
  "total_pnl fp cls self f_0 f_t real_var_0 imp_var_0 tau_0 imp_var_t tau_t =
     np_add fp (np_add fp (np_add fp
       (np_sub fp (price cls self imp_var_t tau_t) (price cls self imp_var_0 tau_0))
       (vanna_pnl cls self imp_var_0 tau_0 imp_var_t tau_t f_0 f_t))
       (gamma_pnl cls f_0 f_t))
       (vega_hedge_pnl fp cls self f_0 f_t real_var_0 imp_var_0 tau_0 tau_t)"
  by (simp add: total_pnl_def Let_def)

text \<open>
  C2, as the code has it. For every arithmetic and every class, \<open>theta_pnl\<close> is minus
  the price at \<open>tau_t - tau_0\<close>, \<open>var_vega_pnl\<close> is \<open>price_t - price_0 - theta_pnl\<close>,
  and \<open>total_pnl\<close> is the price change \<open>price_t - price_0\<close> plus the vanna, gamma
  and hedge terms. That \<open>theta_pnl + var_vega_pnl\<close> gives the price change back is not
  asserted.
\<close>

theorem pnl_components:
  "theta_pnl fp cls self imp_var_0 tau_0 tau_t =
     np_neg (with_array (np_sub fp (Inr tau_t) (Inr tau_0)) (price cls self imp_var_0))
   \<and> var_vega_pnl fp cls self imp_var_0 tau_0 imp_var_t tau_t =
       np_sub fp (np_sub fp (price cls self imp_var_t tau_t) (price cls self imp_var_0 tau_0))
         (theta_pnl fp cls self imp_var_0 tau_0 tau_t)
   \<and> total_pnl fp cls self f_0 f_t real_var_0 imp_var_0 tau_0 imp_var_t tau_t =
     np_add fp (np_add fp (np_add fp
       (np_sub fp (price cls self imp_var_t tau_t) (price cls self imp_var_0 tau_0))
       (vanna_pnl cls self imp_var_0 tau_0 imp_var_t tau_t f_0 f_t))
       (gamma_pnl cls f_0 f_t))
       (vega_hedge_pnl fp cls self f_0 f_t real_var_0 imp_var_0 tau_0 tau_t)"
  by (simp add: theta_pnl_def var_vega_pnl_def total_pnl_def Let_def)

text \<open>
  C2 as stated fails: the five components need not sum to \<open>total_pnl\<close>. With
  \<open>kappa = 2\<close>, \<open>tau_0 = 1000\<close> and \<open>tau_t = 0\<close> the exponential in \<open>theta_pnl\<close>
  overflows, \<open>theta_pnl\<close> and \<open>var_vega_pnl\<close> are infinite of opposite signs and their
  sum is NaN, while \<open>total_pnl\<close> is the finite number \<open>-125.0625\<close>.
\<close>

theorem decomposition_fails_on_overflow:
  "total_pnl range64 (VarianceSwap range64)
     \<lparr>imp_var_params = \<lparr>kappa = 2, mean_of_var = 1 / 8, vol_of_var = 1 / 4\<rparr>,
      real_var_params = \<lparr>kappa = 2, mean_of_var = 1 / 8, vol_of_var = 1 / 4\<rparr>,
      corr = \<lparr>rho_spot_imp = - 1 / 2\<rparr>\<rparr>
     [Fin 100] [Fin 100] [Fin (1 / 4)] [Fin (1 / 4)] [Fin 1000] [Fin (1 / 4)] [Fin 0] =
     Inr [Fin (- 2001 / 16)]
   \<and> np_add range64 (np_add range64 (np_add range64 (np_add range64
       (theta_pnl range64 (VarianceSwap range64)
         \<lparr>imp_var_params = \<lparr>kappa = 2, mean_of_var = 1 / 8, vol_of_var = 1 / 4\<rparr>,
          real_var_params = \<lparr>kappa = 2, mean_of_var = 1 / 8, vol_of_var = 1 / 4\<rparr>,
          corr = \<lparr>rho_spot_imp = - 1 / 2\<rparr>\<rparr>
         [Fin (1 / 4)] [Fin 1000] [Fin 0])
       (var_vega_pnl range64 (VarianceSwap range64)
         \<lparr>imp_var_params = \<lparr>kappa = 2, mean_of_var = 1 / 8, vol_of_var = 1 / 4\<rparr>,
          real_var_params = \<lparr>kappa = 2, mean_of_var = 1 / 8, vol_of_var = 1 / 4\<rparr>,
          corr = \<lparr>rho_spot_imp = - 1 / 2\<rparr>\<rparr>
         [Fin (1 / 4)] [Fin 1000] [Fin (1 / 4)] [Fin 0]))
       (vanna_pnl (VarianceSwap range64)
         \<lparr>imp_var_params = \<lparr>kappa = 2, mean_of_var = 1 / 8, vol_of_var = 1 / 4\<rparr>,
          real_var_params = \<lparr>kappa = 2, mean_of_var = 1 / 8, vol_of_var = 1 / 4\<rparr>,
          corr = \<lparr>rho_spot_imp = - 1 / 2\<rparr>\<rparr>
         [Fin (1 / 4)] [Fin 1000] [Fin (1 / 4)] [Fin 0] [Fin 100] [Fin 100]))
       (gamma_pnl (VarianceSwap range64) [Fin 100] [Fin 100]))
       (vega_hedge_pnl range64 (VarianceSwap range64)
         \<lparr>imp_var_params = \<lparr>kappa = 2, mean_of_var = 1 / 8, vol_of_var = 1 / 4\<rparr>,
          real_var_params = \<lparr>kappa = 2, mean_of_var = 1 / 8, vol_of_var = 1 / 4\<rparr>,
          corr = \<lparr>rho_spot_imp = - 1 / 2\<rparr>\<rparr>
         [Fin 100] [Fin 100] [Fin (1 / 4)] [Fin (1 / 4)] [Fin 1000] [Fin 0]) =
     Inr [NaN]"
  by (simp add: model_defs eval_defs rounded_range64_small exp64_range64_underflow
      exp64_range64_overflow exp64_range64_zero log64_range64 signed_inf_def sqrt_quarter
      fadd_NaN fmul_NaN)

text \<open>
  C8. For every arithmetic and every class, \<open>vega_hedge_pnl\<close> is minus the forward
  vega over the bucket from \<open>tau_0 - tau_t\<close> to \<open>tau_0\<close>, times the skew stickiness
  ratio built from the \<open>vol_of_var\<close> of the implied variance process, times the move of
  the forward. The equation needs no assumption on the variances.
\<close>

theorem vega_hedge_pnl_formula:
  "vega_hedge_pnl fp cls self f_0 f_t real_var_0 imp_var_0 tau_0 tau_t =
     np_mul fp
       (np_mul fp
          (np_neg (np_sub fp (var_vega cls self tau_0)
                     (with_array (np_sub fp (Inr tau_0) (Inr tau_t)) (var_vega cls self))))
          (np_div fp
             (np_mul fp
                (np_mul fp (scalar (rho_spot_imp (corr self)))
                           (scalar (vol_of_var (imp_var_params self))))
                (np_sqrt fp (Inr imp_var_0)))
             (np_sqrt fp (Inr real_var_0))))
       (np_sub fp (Inr f_t) (Inr f_0))"
proof -
  have "with_array (np_sub fp (Inr tau_0) (Inr tau_t))
          (\<lambda>tau_front. forward_var_vega fp cls self tau_front tau_0) =
        np_sub fp (var_vega cls self tau_0)
          (with_array (np_sub fp (Inr tau_0) (Inr tau_t)) (var_vega cls self))"
    unfolding forward_var_vega_def np_sub_def
    by (simp add: broadcast2_with_array)
  then show ?thesis
    by (simp add: vega_hedge_pnl_def min_var_delta_def var_skew_stikiness_ratio_def Let_def
        np_neg_np_mul)
qed

section \<open>No change, no profit or loss\<close>

text \<open>
  C3, as the code has it. Let the forward be the same at both times, finite and
  positive, let \<open>imp_var\<close> and \<open>tau\<close> be the same at both times, and let the shapes
  broadcast to a common length \<open>n\<close>. If the price and the minimum variance delta that
  the code computes from these inputs are finite at every element, then \<open>gamma_pnl\<close> is
  zero at every element of the forward, and \<open>vega_hedge_pnl\<close> and \<open>total_pnl\<close> are
  zero at each of the \<open>n\<close> elements. This holds in every arithmetic in which 1 is a
  double and the logarithm of 1 is 0.
\<close>

theorem zero_change:
  assumes "rnd fp 1 = Some 1" and "log64 fp 1 = Fin 0"
    and "shapes [map Fin f, real_var, imp_var, tau] = Some n"
    and "list_all (\<lambda>x. 0 < x) f"
    and "price (VarianceSwap fp) self imp_var tau = Inr (map Fin ps)"
    and "min_var_delta fp (VarianceSwap fp) self real_var imp_var tau tau = Inr (map Fin ds)"
  shows "gamma_pnl (VarianceSwap fp) (map Fin f) (map Fin f) = Inr (replicate (length f) (Fin 0))
    \<and> vega_hedge_pnl fp (VarianceSwap fp) self (map Fin f) (map Fin f) real_var imp_var tau tau =
        Inr (replicate n (Fin 0))
    \<and> total_pnl fp (VarianceSwap fp) self (map Fin f) (map Fin f) real_var imp_var tau imp_var tau =
        Inr (replicate n (Fin 0))"
proof -
  let ?f = "map Fin f"
  have lenf: "length f = n \<or> length f = 1"
    using shapes_length [OF assms(3), of ?f] by simp
  have f: "\<exists>v. 0 < v \<and> item (Inr ?f) i = Fin v" if i: "i < n" for i
    using item_map_Fin [OF lenf i] assms(4) by (auto simp: list_all_iff)
  have p: "\<exists>p. price_at fp (imp_var_params self) (item (Inr imp_var) i) (item (Inr tau) i) = Fin p"
    if i: "i < n" for i
  proof (rule rep_finite [OF _ _ _ i])
    show "rep (VarianceSwap_price fp self imp_var tau)
            (join_shapes (Some (length imp_var)) (Some (length tau)))
            (\<lambda>i. price_at fp (imp_var_params self) (item (Inr imp_var) i) (item (Inr tau) i))"
      by (rule rep_VarianceSwap_price [OF rep_input rep_input])
    show "VarianceSwap_price fp self imp_var tau = Inr (map Fin ps)"
      using assms(5) by simp
    show "join_shapes (join_shapes (Some (length imp_var)) (Some (length tau)))
            (join_shapes (Some (length f)) (Some (length real_var))) = Some n"
      using assms(3) by (simp add: join_shapes_ac)
  qed
  have d: "\<exists>d. delta_at fp self (item (Inr real_var) i) (item (Inr imp_var) i)
             (item (Inr tau) i) (item (Inr tau) i) = Fin d" if i: "i < n" for i
  proof (rule rep_finite [OF rep_min_var_delta assms(6) _ i])
    show "join_shapes (shapes [tau, tau, real_var, imp_var]) (Some (length f)) = Some n"
      using assms(3) by (simp add: join_shapes_ac)
  qed
  have gamma: "gamma_pnl (VarianceSwap fp) ?f ?f = Inr (replicate (length f) (Fin 0))"
  proof -
    have "rep (VarianceSwap_gamma_pnl fp ?f ?f) (Some (length f))
            (\<lambda>i. gamma_at fp (item (Inr ?f) i) (item (Inr ?f) i))"
      using rep_VarianceSwap_gamma_pnl [OF rep_input rep_input, of fp ?f ?f]
      by (simp add: join_shapes_idem)
    moreover have "gamma_at fp (item (Inr ?f) i) (item (Inr ?f) i) = Fin 0"
      if "i < length f" for i
    proof -
      from that have "item (Inr ?f) i = Fin (f ! i)" by (simp add: item_nth)
      moreover from that assms(4) have "f ! i \<noteq> 0" by (auto simp: list_all_length)
      ultimately show ?thesis using assms(1,2) by (simp add: gamma_at_same)
    qed
    ultimately show ?thesis by (simp add: rep_replicate)
  qed
  have hedge: "vega_hedge_pnl fp (VarianceSwap fp) self ?f ?f real_var imp_var tau tau =
      Inr (replicate n (Fin 0))"
  proof (rule rep_replicate)
    show "rep (vega_hedge_pnl fp (VarianceSwap fp) self ?f ?f real_var imp_var tau tau) (Some n)
            (\<lambda>i. hedge_at fp self (item (Inr ?f) i) (item (Inr ?f) i) (item (Inr real_var) i)
                    (item (Inr imp_var) i) (item (Inr tau) i) (item (Inr tau) i))"
      using rep_vega_hedge_pnl [of fp self ?f ?f real_var imp_var tau tau] assms(3)
      by (simp add: join_shapes_ac)
  next
    fix i assume i: "i < n"
    from f [OF i] d [OF i]
    show "hedge_at fp self (item (Inr ?f) i) (item (Inr ?f) i) (item (Inr real_var) i)
                    (item (Inr imp_var) i) (item (Inr tau) i) (item (Inr tau) i) = Fin 0"
      by (auto simp: hedge_at_same)
  qed
  have total: "total_pnl fp (VarianceSwap fp) self ?f ?f real_var imp_var tau imp_var tau =
      Inr (replicate n (Fin 0))"
  proof (rule rep_replicate)
    show "rep (total_pnl fp (VarianceSwap fp) self ?f ?f real_var imp_var tau imp_var tau) (Some n)
            (\<lambda>i. total_at fp self (item (Inr ?f) i) (item (Inr ?f) i) (item (Inr real_var) i)
                    (item (Inr imp_var) i) (item (Inr tau) i) (item (Inr imp_var) i)
                    (item (Inr tau) i))"
      using rep_total_pnl [of fp self ?f ?f real_var imp_var tau imp_var tau] assms(3)
      by (simp add: join_shapes_ac)
  next
    fix i assume i: "i < n"
    from f [OF i] p [OF i] d [OF i] assms(1,2)
    show "total_at fp self (item (Inr ?f) i) (item (Inr ?f) i) (item (Inr real_var) i)
                    (item (Inr imp_var) i) (item (Inr tau) i) (item (Inr imp_var) i)
                    (item (Inr tau) i) = Fin 0"
      by (auto simp: total_at_same)
  qed
  from gamma hedge total show ?thesis by simp
qed

text \<open>
  The theorem at an input where the forward has length 1 and is broadcast against
  arrays of length 2.
\<close>

theorem zero_change_witness:
  "rnd range64 1 = Some 1 \<and> log64 range64 1 = Fin 0
   \<and> shapes [map Fin [100], [Fin (1 / 4), Fin 1], [Fin (1 / 4), Fin (1 / 4)], [Fin 0, Fin 1000]]
       = Some 2
   \<and> price (VarianceSwap range64)
       \<lparr>imp_var_params = \<lparr>kappa = 2, mean_of_var = 1 / 8, vol_of_var = 1 / 4\<rparr>,
        real_var_params = \<lparr>kappa = 2, mean_of_var = 1 / 8, vol_of_var = 1 / 4\<rparr>,
        corr = \<lparr>rho_spot_imp = - 1 / 2\<rparr>\<rparr>
       [Fin (1 / 4), Fin (1 / 4)] [Fin 0, Fin 1000] = Inr (map Fin [0, 2001 / 16])
   \<and> min_var_delta range64 (VarianceSwap range64)
       \<lparr>imp_var_params = \<lparr>kappa = 2, mean_of_var = 1 / 8, vol_of_var = 1 / 4\<rparr>,
        real_var_params = \<lparr>kappa = 2, mean_of_var = 1 / 8, vol_of_var = 1 / 4\<rparr>,
        corr = \<lparr>rho_spot_imp = - 1 / 2\<rparr>\<rparr>
       [Fin (1 / 4), Fin 1] [Fin (1 / 4), Fin (1 / 4)] [Fin 0, Fin 1000] [Fin 0, Fin 1000] =
       Inr (map Fin [0, - 1 / 32])
   \<and> gamma_pnl (VarianceSwap range64) [Fin 100] [Fin 100] = Inr [Fin 0]
   \<and> vega_hedge_pnl range64 (VarianceSwap range64)
       \<lparr>imp_var_params = \<lparr>kappa = 2, mean_of_var = 1 / 8, vol_of_var = 1 / 4\<rparr>,
        real_var_params = \<lparr>kappa = 2, mean_of_var = 1 / 8, vol_of_var = 1 / 4\<rparr>,
        corr = \<lparr>rho_spot_imp = - 1 / 2\<rparr>\<rparr>
       [Fin 100] [Fin 100] [Fin (1 / 4), Fin 1] [Fin (1 / 4), Fin (1 / 4)]
       [Fin 0, Fin 1000] [Fin 0, Fin 1000] = Inr [Fin 0, Fin 0]
   \<and> total_pnl range64 (VarianceSwap range64)
       \<lparr>imp_var_params = \<lparr>kappa = 2, mean_of_var = 1 / 8, vol_of_var = 1 / 4\<rparr>,
        real_var_params = \<lparr>kappa = 2, mean_of_var = 1 / 8, vol_of_var = 1 / 4\<rparr>,
        corr = \<lparr>rho_spot_imp = - 1 / 2\<rparr>\<rparr>
       [Fin 100] [Fin 100] [Fin (1 / 4), Fin 1] [Fin (1 / 4), Fin (1 / 4)]
       [Fin 0, Fin 1000] [Fin (1 / 4), Fin (1 / 4)] [Fin 0, Fin 1000] = Inr [Fin 0, Fin 0]"
proof -
  let ?S = "\<lparr>imp_var_params = \<lparr>kappa = 2, mean_of_var = 1 / 8, vol_of_var = 1 / 4\<rparr>,
        real_var_params = \<lparr>kappa = 2, mean_of_var = 1 / 8, vol_of_var = 1 / 4\<rparr>,
        corr = \<lparr>rho_spot_imp = - 1 / 2\<rparr>\<rparr>"
  have "(1::real) < 2 ^ 1024 - 2 ^ 970" using largest one_le_power [of "2::real" 1000] by linarith
  then have h1: "rnd range64 1 = Some 1" and h2: "log64 range64 1 = Fin 0"
    by (simp_all add: range64_def)
  have h3: "shapes [map Fin [100], [Fin (1 / 4), Fin 1], [Fin (1 / 4), Fin (1 / 4)],
      [Fin 0, Fin 1000]] = Some 2"
    by (simp add: join_shapes_def broadcast_shapes_def)
  have h4: "list_all (\<lambda>x. 0 < x) [100::real]" by simp
  have h5: "price (VarianceSwap range64) ?S [Fin (1 / 4), Fin (1 / 4)] [Fin 0, Fin 1000] =
      Inr (map Fin [0, 2001 / 16])"
    by (simp add: model_defs eval_defs rounded_range64_small exp64_range64_underflow
        exp64_range64_zero)
  have h6: "min_var_delta range64 (VarianceSwap range64) ?S [Fin (1 / 4), Fin 1]
      [Fin (1 / 4), Fin (1 / 4)] [Fin 0, Fin 1000] [Fin 0, Fin 1000] = Inr (map Fin [0, - 1 / 32])"
    by (simp add: model_defs eval_defs rounded_range64_small exp64_range64_underflow
        exp64_range64_zero sqrt_quarter)
  from zero_change [OF h1 h2 h3 h4 h5 h6] h1 h2 h3 h5 h6 show ?thesis
    by (simp add: numeral_2_eq_2)
qed

text \<open>
  C3 as stated fails: it asks nothing of \<open>real_var_0\<close>. Where \<open>real_var_0\<close> is zero the
  skew stickiness ratio is a quotient by zero, an infinity; times the forward move 0 it
  is NaN, and so are \<open>vega_hedge_pnl\<close> and \<open>total_pnl\<close>.
\<close>

theorem zero_change_fails_at_zero_real_var:
  "vega_hedge_pnl range64 (VarianceSwap range64)
     \<lparr>imp_var_params = \<lparr>kappa = 2, mean_of_var = 4 / 100, vol_of_var = 3 / 10\<rparr>,
      real_var_params = \<lparr>kappa = 2, mean_of_var = 4 / 100, vol_of_var = 3 / 10\<rparr>,
      corr = \<lparr>rho_spot_imp = - 1 / 2\<rparr>\<rparr>
     [Fin 100] [Fin 100] [Fin 0] [Fin 1] [Fin 1] [Fin 1] = Inr [NaN]
   \<and> total_pnl range64 (VarianceSwap range64)
     \<lparr>imp_var_params = \<lparr>kappa = 2, mean_of_var = 4 / 100, vol_of_var = 3 / 10\<rparr>,
      real_var_params = \<lparr>kappa = 2, mean_of_var = 4 / 100, vol_of_var = 3 / 10\<rparr>,
      corr = \<lparr>rho_spot_imp = - 1 / 2\<rparr>\<rparr>
     [Fin 100] [Fin 100] [Fin 0] [Fin 1] [Fin 1] [Fin 1] [Fin 1] = Inr [NaN]"
  using exp_minus_two
  by (simp add: model_defs eval_defs rounded_range64_small exp64_range64_minus_two
      exp64_range64_zero log64_range64 signed_inf_def fadd_NaN)

section \<open>The methods of VarianceSwap\<close>




text \<open>
  C5. The vanna profit and loss of \<open>VarianceSwap\<close> is an array of zeros of the length of
  \<open>imp_var_0\<close>, whatever the other arguments and whatever the elements of
  \<open>imp_var_0\<close> are; for an empty \<open>imp_var_0\<close> it is the empty array.
\<close>

theorem vanna_pnl_zero:
  "vanna_pnl (VarianceSwap fp) self imp_var_0 tau_0 imp_var_t tau_t f_0 f_t =
     Inr (replicate (length imp_var_0) (Fin 0))"
  by (simp add: VarianceSwap_vanna_pnl_def np_zeros_like_def)

text \<open>
  C6. In every arithmetic and for all inputs, the price is the ufunc of
  \<open>m * tau + (imp_var - m) * (1 - exp (- k * tau)) / k\<close>, evaluated in that arithmetic
  in this order of operations; with \<open>k = 2\<close>, \<open>m = 0.04\<close>, \<open>tau = 1\<close> and
  \<open>imp_var = 0.09\<close> it is \<open>0.04 * 1 + (0.09 - 0.04) * (1 - exp (- 2 * 1)) / 2\<close> so
  evaluated.
\<close>

theorem price_formula:
  "price (VarianceSwap fp)
     \<lparr>imp_var_params = \<lparr>kappa = k, mean_of_var = m, vol_of_var = s\<rparr>,
      real_var_params = r, corr = c\<rparr> imp_var tau =
   broadcast2
     (\<lambda>v t. fadd fp (fmul fp (Fin m) t)
              (fdiv fp (fmul fp (fsub fp v (Fin m))
                          (fsub fp (Fin 1) (fexp fp (fmul fp (Fin (- k)) t))))
                 (Fin k)))
     (Inr imp_var) (Inr tau)
   \<and> price (VarianceSwap fp)
       \<lparr>imp_var_params = \<lparr>kappa = 2, mean_of_var = 4 / 100, vol_of_var = s\<rparr>,
        real_var_params = r, corr = c\<rparr> [Fin (9 / 100)] [Fin 1] =
     Inr [fadd fp (fmul fp (Fin (4 / 100)) (Fin 1))
            (fdiv fp (fmul fp (fsub fp (Fin (9 / 100)) (Fin (4 / 100)))
                        (fsub fp (Fin 1) (fexp fp (fmul fp (Fin (- 2)) (Fin 1)))))
               (Fin 2))]"
  by (simp add: VarianceSwap_price_elementwise price_at_def [abs_def] broadcast2_single)

text \<open>
  In the arithmetic that rounds nothing, this is the number
  \<open>0.04 + 0.05 * (1 - exp (- 2)) / 2\<close>.
\<close>

theorem price_formula_witness:
  "price (VarianceSwap range64)
     \<lparr>imp_var_params = \<lparr>kappa = 2, mean_of_var = 4 / 100, vol_of_var = 3 / 10\<rparr>,
      real_var_params = \<lparr>kappa = 1, mean_of_var = 5 / 100, vol_of_var = 2 / 10\<rparr>,
      corr = \<lparr>rho_spot_imp = - 1 / 2\<rparr>\<rparr> [Fin (9 / 100)] [Fin 1] =
   Inr [Fin (4 / 100 + 5 / 100 * (1 - exp (- 2)) / 2)]"
proof -
  have e: "(0::real) \<le> exp (- 2)" "exp (- 2 :: real) \<le> 1" by simp_all
  have r1: "rounded range64 (1 - exp (- 2)) = Fin (1 - exp (- 2))"
    by (rule rounded_range64_small) (rule small_values(1) [OF e])
  have r2: "rounded range64 (5 / 100 * (1 - exp (- 2))) = Fin (5 / 100 * (1 - exp (- 2)))"
    by (rule rounded_range64_small) (rule small_values(2) [OF e])
  have r3: "rounded range64 (5 / 100 * (1 - exp (- 2)) / 2) = Fin (5 / 100 * (1 - exp (- 2)) / 2)"
    by (rule rounded_range64_small) (rule small_values(3) [OF e])
  have r4: "rounded range64 (4 / 100 + 5 / 100 * (1 - exp (- 2)) / 2) =
      Fin (4 / 100 + 5 / 100 * (1 - exp (- 2)) / 2)"
    by (rule rounded_range64_small) (rule small_values(4) [OF e])
  have "fadd range64 (fmul range64 (Fin (4 / 100)) (Fin 1))
            (fdiv range64 (fmul range64 (fsub range64 (Fin (9 / 100)) (Fin (4 / 100)))
                        (fsub range64 (Fin 1) (fexp range64 (fmul range64 (Fin (- 2)) (Fin 1)))))
               (Fin 2)) = Fin (4 / 100 + 5 / 100 * (1 - exp (- 2)) / 2)"
    using r1 r2 r3 r4
    by (simp add: fsub_def rounded_range64_small exp64_range64_minus_two)
  with price_formula [of range64 2 "4 / 100" "3 / 10"
      "\<lparr>kappa = 1, mean_of_var = 5 / 100, vol_of_var = 2 / 10\<rparr>" "\<lparr>rho_spot_imp = - 1 / 2\<rparr>"
      "[]" "[]"]
  show ?thesis by simp
qed




text \<open>
  C10. No operation of \<open>VarianceSwap\<close> reads \<open>real_var_params\<close>: two instances with
  the same \<open>imp_var_params\<close> and \<open>corr\<close> give the same result in every operation,
  whatever their \<open>real_var_params\<close>. The static method \<open>gamma_pnl\<close> takes no instance
  at all.
\<close>

theorem real_var_params_unused:
  "price (VarianceSwap fp) \<lparr>imp_var_params = p, real_var_params = r, corr = c\<rparr> imp_var tau =
     price (VarianceSwap fp) \<lparr>imp_var_params = p, real_var_params = r', corr = c\<rparr> imp_var tau
   \<and> var_vega (VarianceSwap fp) \<lparr>imp_var_params = p, real_var_params = r, corr = c\<rparr> tau =
       var_vega (VarianceSwap fp) \<lparr>imp_var_params = p, real_var_params = r', corr = c\<rparr> tau
   \<and> forward_var_vega fp (VarianceSwap fp) \<lparr>imp_var_params = p, real_var_params = r, corr = c\<rparr>
         tau_front tau_back =
       forward_var_vega fp (VarianceSwap fp) \<lparr>imp_var_params = p, real_var_params = r', corr = c\<rparr>
         tau_front tau_back
   \<and> var_skew_stikiness_ratio fp \<lparr>imp_var_params = p, real_var_params = r, corr = c\<rparr>
         real_var imp_var =
       var_skew_stikiness_ratio fp \<lparr>imp_var_params = p, real_var_params = r', corr = c\<rparr>
         real_var imp_var
   \<and> min_var_delta fp (VarianceSwap fp) \<lparr>imp_var_params = p, real_var_params = r, corr = c\<rparr>
         real_var imp_var tau_0 tau_t =
       min_var_delta fp (VarianceSwap fp) \<lparr>imp_var_params = p, real_var_params = r', corr = c\<rparr>
         real_var imp_var tau_0 tau_t
   \<and> theta_pnl fp (VarianceSwap fp) \<lparr>imp_var_params = p, real_var_params = r, corr = c\<rparr>
         imp_var_0 tau_0 tau_t =
       theta_pnl fp (VarianceSwap fp) \<lparr>imp_var_params = p, real_var_params = r', corr = c\<rparr>
         imp_var_0 tau_0 tau_t
   \<and> var_vega_pnl fp (VarianceSwap fp) \<lparr>imp_var_params = p, real_var_params = r, corr = c\<rparr>
         imp_var_0 tau_0 imp_var_t tau_t =
       var_vega_pnl fp (VarianceSwap fp) \<lparr>imp_var_params = p, real_var_params = r', corr = c\<rparr>
         imp_var_0 tau_0 imp_var_t tau_t
   \<and> vanna_pnl (VarianceSwap fp) \<lparr>imp_var_params = p, real_var_params = r, corr = c\<rparr>
         imp_var_0 tau_0 imp_var_t tau_t f_0 f_t =
       vanna_pnl (VarianceSwap fp) \<lparr>imp_var_params = p, real_var_params = r', corr = c\<rparr>
         imp_var_0 tau_0 imp_var_t tau_t f_0 f_t
   \<and> vega_hedge_pnl fp (VarianceSwap fp) \<lparr>imp_var_params = p, real_var_params = r, corr = c\<rparr>
         f_0 f_t real_var_0 imp_var_0 tau_0 tau_t =
       vega_hedge_pnl fp (VarianceSwap fp) \<lparr>imp_var_params = p, real_var_params = r', corr = c\<rparr>
         f_0 f_t real_var_0 imp_var_0 tau_0 tau_t
   \<and> total_pnl fp (VarianceSwap fp) \<lparr>imp_var_params = p, real_var_params = r, corr = c\<rparr>
         f_0 f_t real_var_0 imp_var_0 tau_0 imp_var_t tau_t =
       total_pnl fp (VarianceSwap fp) \<lparr>imp_var_params = p, real_var_params = r', corr = c\<rparr>
         f_0 f_t real_var_0 imp_var_0 tau_0 imp_var_t tau_t"
  by (simp add: VarianceSwap_price_def VarianceSwap_var_vega_def VarianceSwap_vanna_pnl_def
      forward_var_vega_def var_skew_stikiness_ratio_def min_var_delta_def theta_pnl_def
      var_vega_pnl_def vega_hedge_pnl_def total_pnl_def)

end
